theory Spec2Isabelle
  imports Complex_Main
begin

chapter \<open>Market DNA visualizer: the segment model and the helix generator\<close>

text \<open>
  A shallow embedding of \<^verbatim>\<open>dna_visualiser/js/dna-visualizer.js\<close> (class
  \<^verbatim>\<open>DNAVisualizer\<close>). Conventions of the embedding:

  \<^item> A JavaScript value is a \<open>jsval\<close>. An object is the association list of its own
    properties, looked up with \<open>map_of\<close>; a property that is missing reads as
    \<open>JUndefined\<close>, as in JavaScript.
  \<^item> A JavaScript number is the real number it denotes and arithmetic is exact; the
    only non-finite number that the code itself can produce on finite input is \<open>NaN\<close>,
    which is \<open>None\<close> of the type \<open>num\<close>. The exception is \<^verbatim>\<open>calculateStats\<close>, whose
    result prints decimal digits of a sum and a quotient: there the two operations
    are those of the host on doubles.
  \<^item> A thrown exception is the left injection of a sum type. Every exception these
    methods can raise on the modelled values is a \<^verbatim>\<open>TypeError\<close>.
  \<^item> Built-ins of the host whose full definition lies outside the repository
    (\<^verbatim>\<open>JSON.parse\<close>, \<^verbatim>\<open>parseInt\<close>, the coercions applied to values of an
    unexpected type) are fields of a record \<open>host\<close> that the methods take as argument.
    Apart from \<^verbatim>\<open>JSON.parse\<close> they are total: an object whose own \<^verbatim>\<open>toString\<close> or
    \<^verbatim>\<open>valueOf\<close> property makes a coercion throw is outside the embedding.
  \<^item> The diagnostic channel (\<^verbatim>\<open>debugLog\<close>) has no effect on results and is left out.

  The last part embeds the method \<^verbatim>\<open>update\<close> of the camera controller in
  \<^verbatim>\<open>dna_visualiser/js/orbit-controls.js\<close>. The conversions between Cartesian and
  spherical coordinates that it calls are methods of the rendering library, which is
  not part of the repository; they are modelled from the specification.
\<close>

section \<open>JavaScript values\<close>

datatype jsval =
    JUndefined
  | JNull
  | JBool bool
  | JNum real
  | JStr string
  | JArr "jsval list"
  | JObj "(string \<times> jsval) list"

datatype error = TypeError

type_synonym num = "real option"

datatype count = Count nat | Text string

record host =
  JSON_parse :: "string \<Rightarrow> jsval option"
  parseInt :: "jsval \<Rightarrow> num"
  ToNumber :: "jsval \<Rightarrow> num"
  ToString :: "jsval \<Rightarrow> string"
  fadd :: "real \<Rightarrow> real \<Rightarrow> real"
  fdiv :: "real \<Rightarrow> real \<Rightarrow> real"
  InheritedText :: "string \<Rightarrow> string"

text \<open>
  \<open>JSON_parse h s = None\<close> when \<^verbatim>\<open>JSON.parse(s)\<close> throws; \<open>parseInt h v = None\<close>
  when \<^verbatim>\<open>parseInt(v)\<close> is \<open>NaN\<close>. \<open>ToNumber\<close> is only consulted for values that
  are not numbers, \<open>ToString\<close> for values that are not strings and for numbers of
  magnitude \<open>10\<^sup>2\<^sup>1\<close> or more, which print in exponent notation. \<open>fadd\<close> and \<open>fdiv\<close>
  are the sum and the quotient of two doubles, each rounded to a double, and
  \<open>InheritedText h k\<close> is the text that the function named \<open>k\<close> which every object
  inherits converts to. A value of the type \<open>count\<close> is what a property of the
  counter object of \<^verbatim>\<open>calculateStats\<close> can hold: a number of occurrences or a text.
\<close>

fun nullish :: "jsval \<Rightarrow> bool" where
  "nullish JUndefined = True"
| "nullish JNull = True"
| "nullish v = False"

text \<open>
  \<^verbatim>\<open>v.k\<close> for a value \<open>v\<close> that is neither \<^verbatim>\<open>null\<close> nor \<^verbatim>\<open>undefined\<close> (reading a
  property of those throws, which every caller checks first with \<open>nullish\<close>) and a
  key \<open>k\<close> among the segment fields: primitives and arrays have no property of
  these names.
\<close>

fun getProp :: "jsval \<Rightarrow> string \<Rightarrow> jsval" where
  "getProp (JObj kvs) k = (case map_of kvs k of None \<Rightarrow> JUndefined | Some v \<Rightarrow> v)"
| "getProp v k = JUndefined"

fun truthy :: "jsval \<Rightarrow> bool" where
  "truthy JUndefined = False"
| "truthy JNull = False"
| "truthy (JBool b) = b"
| "truthy (JNum r) = (r \<noteq> 0)"
| "truthy (JStr s) = (s \<noteq> [])"
| "truthy (JArr xs) = True"
| "truthy (JObj kvs) = True"

text \<open>
  \<^verbatim>\<open>Array.prototype.filter\<close> with a callback that may throw: the elements are
  visited in order and the first exception ends the call.
\<close>

fun filterE :: "('a \<Rightarrow> error + bool) \<Rightarrow> 'a list \<Rightarrow> error + 'a list" where
  "filterE p [] = Inr []"
| "filterE p (x # xs) =
     (case p x of
        Inl e \<Rightarrow> Inl e
      | Inr b \<Rightarrow>
          (case filterE p xs of
             Inl e \<Rightarrow> Inl e
           | Inr ys \<Rightarrow> Inr (if b then x # ys else ys)))"

section \<open>Validation and the type filter\<close>

text \<open>The callback of \<^verbatim>\<open>validateData\<close>, lines 85 to 92.\<close>

definition validSegment :: "jsval \<Rightarrow> error + bool" where
  "validSegment segment =
     (if nullish segment then Inl TypeError
      else Inr (truthy (getProp segment ''segment_type'')
                \<and> getProp segment ''start_index'' \<noteq> JUndefined
                \<and> getProp segment ''end_index'' \<noteq> JUndefined
                \<and> getProp segment ''start_price'' \<noteq> JUndefined
                \<and> getProp segment ''end_price'' \<noteq> JUndefined
                \<and> getProp segment ''pct_change'' \<noteq> JUndefined))"

definition validateData :: "jsval \<Rightarrow> error + jsval list" where
  "validateData data =
     (case data of
        JArr xs \<Rightarrow> filterE validSegment xs
      | _ \<Rightarrow> Inr [])"

text \<open>
  \<^verbatim>\<open>filterSegmentsByType(data, type)\<close>, with \<open>type\<close> a string: the strict
  equality \<^verbatim>\<open>segment.segment_type === type\<close> holds exactly when the property is that
  string.
\<close>

definition filterSegmentsByType :: "jsval list \<Rightarrow> string \<Rightarrow> error + jsval list" where
  "filterSegmentsByType data ty =
     (if ty = ''all'' then Inr data
      else filterE (\<lambda>segment.
             if nullish segment then Inl TypeError
             else Inr (getProp segment ''segment_type'' = JStr ty)) data)"

text \<open>
  The two readings of the validation rule that the properties below compare: what the
  specification says (all six fields present) and what the callback computes.
\<close>

definition spec_allRequiredPresent :: "jsval \<Rightarrow> bool" where
  "spec_allRequiredPresent segment =
     (getProp segment ''segment_type'' \<noteq> JUndefined
      \<and> getProp segment ''start_index'' \<noteq> JUndefined
      \<and> getProp segment ''end_index'' \<noteq> JUndefined
      \<and> getProp segment ''start_price'' \<noteq> JUndefined
      \<and> getProp segment ''end_price'' \<noteq> JUndefined
      \<and> getProp segment ''pct_change'' \<noteq> JUndefined)"

definition keptByValidate :: "jsval \<Rightarrow> bool" where
  "keptByValidate segment =
     (truthy (getProp segment ''segment_type'')
      \<and> getProp segment ''start_index'' \<noteq> JUndefined
      \<and> getProp segment ''end_index'' \<noteq> JUndefined
      \<and> getProp segment ''start_price'' \<noteq> JUndefined
      \<and> getProp segment ''end_price'' \<noteq> JUndefined
      \<and> getProp segment ''pct_change'' \<noteq> JUndefined)"

text \<open>Sample records, in the layout of the segment JSON.\<close>

definition mkSegment :: "jsval \<Rightarrow> real \<Rightarrow> real \<Rightarrow> real \<Rightarrow> real \<Rightarrow> real \<Rightarrow> jsval" where
  "mkSegment ty si ei sp ep pc =
     JObj [(''segment_type'', ty), (''start_index'', JNum si), (''end_index'', JNum ei),
           (''start_price'', JNum sp), (''end_price'', JNum ep), (''pct_change'', JNum pc)]"

definition noPctChange :: "real \<Rightarrow> jsval" where
  "noPctChange si =
     JObj [(''segment_type'', JStr ''negative''), (''start_index'', JNum si),
           (''end_index'', JNum (si + 1)), (''start_price'', JNum 1), (''end_price'', JNum 2)]"


section \<open>The helix geometry generator\<close>

text \<open>
  The scene graph that \<^verbatim>\<open>createDNAHelix\<close> builds. The constructors of the rendering
  library are data constructors that record their arguments. Of a material the
  emissive intensity and the opacity are kept, of a mesh its geometry, material,
  position and the two deterministic animation parameters (\<open>initialScale\<close>,
  \<open>maxScale\<close>); colour, orientation, the hover text and the two parameters drawn
  from \<^verbatim>\<open>Math.random\<close> are left out.

  The arguments are in the order of the library: \<open>TubeGeometry\<close> takes the points of
  the curve, the tubular segments, the radius, the radial segments and the closed
  flag; \<open>CylinderGeometry\<close> the top radius, the bottom radius, the height, the radial
  segments, the height segments and the open-ended flag; \<open>SphereGeometry\<close> the radius
  and the two segment counts. \<open>MeshStandardMaterial\<close> holds the emissive intensity
  and the opacity, \<open>MeshBasicMaterial\<close> the opacity.
\<close>

type_synonym vec3 = "num \<times> num \<times> num"

record config =
  helixTurns :: real
  helixRadius :: real
  backboneThickness :: real
  height :: real
  pointsPerTurn :: real

datatype geometry =
    TubeGeometry "vec3 list" real real nat bool
  | CylinderGeometry num num real nat nat bool
  | SphereGeometry real nat nat

datatype material =
    MeshStandardMaterial real real
  | MeshBasicMaterial real

record mesh =
  geometry :: geometry
  material :: material
  position :: vec3
  animationParams :: "(real \<times> real) option"

record group =
  children :: "mesh list"
  rotationY :: real

record visualizer =
  scene :: "group list"
  dnaGroup :: "group option"
  lastLoadedData :: "jsval list option"
  selectedType :: string
  config :: config

text \<open>The constructor, lines 6 to 19; \<open>scene\<close> lists the groups that the scene holds.\<close>

definition DNAVisualizer :: "group list \<Rightarrow> visualizer" where
  "DNAVisualizer sc =
     \<lparr>scene = sc, dnaGroup = None, lastLoadedData = None, selectedType = ''optimal'',
      config = \<lparr>helixTurns = 15, helixRadius = 10, backboneThickness = 1.2,
                height = 200, pointsPerTurn = 32\<rparr>\<rparr>"

definition setConfig :: "string \<Rightarrow> real \<Rightarrow> visualizer \<Rightarrow> visualizer" where
  "setConfig key v this =
     (if key = ''helixTurns'' then this\<lparr>config := (config this)\<lparr>helixTurns := v\<rparr>\<rparr>
      else if key = ''helixRadius'' then this\<lparr>config := (config this)\<lparr>helixRadius := v\<rparr>\<rparr>
      else if key = ''backboneThickness''
        then this\<lparr>config := (config this)\<lparr>backboneThickness := v\<rparr>\<rparr>
      else if key = ''height'' then this\<lparr>config := (config this)\<lparr>height := v\<rparr>\<rparr>
      else if key = ''pointsPerTurn'' then this\<lparr>config := (config this)\<lparr>pointsPerTurn := v\<rparr>\<rparr>
      else this)"

definition setSelectedType :: "string \<Rightarrow> visualizer \<Rightarrow> visualizer" where
  "setSelectedType ty this = this\<lparr>selectedType := ty\<rparr>"

definition getLastLoadedData :: "visualizer \<Rightarrow> jsval list option" where
  "getLastLoadedData this = lastLoadedData this"

text \<open>Arithmetic on numbers that may be \<open>NaN\<close>: an operation on \<open>NaN\<close> is \<open>NaN\<close>.\<close>

definition num2 :: "(real \<Rightarrow> real \<Rightarrow> real) \<Rightarrow> num \<Rightarrow> num \<Rightarrow> num" where
  "num2 f a b =
     (case a of
        None \<Rightarrow> None
      | Some x \<Rightarrow> (case b of None \<Rightarrow> None | Some y \<Rightarrow> Some (f x y)))"

text \<open>
  \<^verbatim>\<open>Math.log\<close>; its argument in \<^verbatim>\<open>createDNAHelix\<close> is at least 1 or \<open>NaN\<close>, so the
  infinite result at 0 does not arise.
\<close>

definition mathLog :: "num \<Rightarrow> num" where
  "mathLog a = (case a of None \<Rightarrow> None | Some x \<Rightarrow> if x \<le> 0 then None else Some (ln x))"

text \<open>
  The loop of lines 133 to 155: \<open>i\<close> runs over the naturals up to \<open>totalPoints\<close>. The
  quotient \<open>i / totalPoints\<close> is \<open>NaN\<close> when \<open>totalPoints\<close> is 0 (then \<open>i\<close> is 0 too).
\<close>

definition loopRange :: "real \<Rightarrow> nat list" where
  "loopRange totalPoints = [0 ..< nat (\<lfloor>totalPoints\<rfloor> + 1)]"

definition backbone1Points :: "config \<Rightarrow> vec3 list" where
  "backbone1Points cfg =
     (let radius = helixRadius cfg;
          turns = helixTurns cfg;
          height = 200;
          pointsPerTurn = 32;
          totalPoints = turns * pointsPerTurn
      in map (\<lambda>i.
            let t = (if totalPoints = 0 then None else Some (real i / totalPoints));
                y = map_option (\<lambda>t. height * (0.5 - t)) t;
                angle = map_option (\<lambda>t. 2 * pi * turns * t) t
            in (map_option (\<lambda>a. radius * cos a) angle, y,
                map_option (\<lambda>a. radius * sin a) angle))
          (loopRange totalPoints))"

definition backbone2Points :: "config \<Rightarrow> vec3 list" where
  "backbone2Points cfg =
     (let radius = helixRadius cfg;
          turns = helixTurns cfg;
          height = 200;
          pointsPerTurn = 32;
          totalPoints = turns * pointsPerTurn
      in map (\<lambda>i.
            let t = (if totalPoints = 0 then None else Some (real i / totalPoints));
                y = map_option (\<lambda>t. height * (0.5 - t)) t;
                angle = map_option (\<lambda>t. 2 * pi * turns * t) t
            in (map_option (\<lambda>a. radius * cos (a + pi)) angle, y,
                map_option (\<lambda>a. radius * sin (a + pi)) angle))
          (loopRange totalPoints))"

definition origin :: vec3 where
  "origin = (Some 0, Some 0, Some 0)"

definition backbone1 :: "config \<Rightarrow> mesh" where
  "backbone1 cfg =
     \<lparr>geometry = TubeGeometry (backbone1Points cfg) (helixTurns cfg * 32)
                   (backboneThickness cfg) 8 False,
      material = MeshStandardMaterial 0.3 0.9,
      position = origin, animationParams = None\<rparr>"

definition backbone2 :: "config \<Rightarrow> mesh" where
  "backbone2 cfg =
     \<lparr>geometry = TubeGeometry (backbone2Points cfg) (helixTurns cfg * 32)
                   (backboneThickness cfg) 8 False,
      material = MeshStandardMaterial 0.2 0.8,
      position = origin, animationParams = None\<rparr>"

text \<open>
  The body of the loop of lines 196 to 321 for the segment at index \<open>i\<close>, in the
  order of the source: the position along the helix (lines 205 to 216 and 251), the
  scale factor (lines 198, 199, 222 and 223), the rung (lines 227 to 248) and the
  pulse spheres (lines 280 to 320).
\<close>

definition rungPosition :: "config \<Rightarrow> nat \<Rightarrow> nat \<Rightarrow> vec3" where
  "rungPosition cfg numSegments i =
     (let radius = helixRadius cfg;
          turns = helixTurns cfg;
          height = 200;
          t = real i / real numSegments;
          angle = 2 * pi * turns * t;
          y = height * (0.5 - t);
          x1 = radius * cos angle;
          z1 = radius * sin angle;
          x2 = radius * cos (angle + pi);
          z2 = radius * sin (angle + pi)
      in (Some ((x1 + x2) * 0.5), Some ((y + y) * 0.5), Some ((z1 + z2) * 0.5)))"

definition scaleFactor :: "host \<Rightarrow> jsval \<Rightarrow> num" where
  "scaleFactor h segment =
     (let startIdx = parseInt h (getProp segment ''start_index'');
          endIdx = parseInt h (getProp segment ''end_index'');
          segmentLength = num2 max (Some 1) (num2 (-) endIdx startIdx)
      in num2 min (Some 1.5)
           (num2 (+) (num2 (/) (mathLog segmentLength) (Some (ln 10))) (Some 0.5)))"

definition rung :: "host \<Rightarrow> config \<Rightarrow> nat \<Rightarrow> nat \<Rightarrow> jsval \<Rightarrow> real \<Rightarrow> mesh" where
  "rung h cfg numSegments i segment pctChange =
     (let radius = helixRadius cfg;
          baseWidth = 0.3 + min 0.5 (\<bar>pctChange\<bar> * 0.03)
      in \<lparr>geometry =
            CylinderGeometry (num2 (*) (Some baseWidth) (scaleFactor h segment))
              (num2 (*) (Some baseWidth) (scaleFactor h segment)) (radius * 2) 8 1 False,
          material = MeshStandardMaterial (min 0.4 (\<bar>pctChange\<bar> * 0.03 + 0.1)) 0.95,
          position = rungPosition cfg numSegments i,
          animationParams = None\<rparr>)"

definition pulses :: "config \<Rightarrow> nat \<Rightarrow> nat \<Rightarrow> real \<Rightarrow> mesh list" where
  "pulses cfg numSegments i pctChange =
     (let pulse =
            \<lparr>geometry = SphereGeometry (0.8 + \<bar>pctChange\<bar> * 0.05) 16 16,
             material = MeshBasicMaterial 0.2,
             position = rungPosition cfg numSegments i,
             animationParams = Some (0.5, 1.0 + \<bar>pctChange\<bar> * 0.02)\<rparr>;
          outerPulse =
            \<lparr>geometry = SphereGeometry (1.0 + \<bar>pctChange\<bar> * 0.08) 16 16,
             material = MeshBasicMaterial 0.1,
             position = rungPosition cfg numSegments i,
             animationParams = Some (0.7, 1.2 + \<bar>pctChange\<bar> * 0.03)\<rparr>
      in if \<bar>pctChange\<bar> > 5
         then pulse # (if \<bar>pctChange\<bar> > 8 then [outerPulse] else [])
         else [])"

text \<open>
  The hover text calls \<^verbatim>\<open>type.toUpperCase()\<close> and \<^verbatim>\<open>pctChange.toFixed(2)\<close> before
  the rung is added to the group; they throw unless the type is a string and the
  percent change a number.
\<close>

definition rungLoopBody :: "host \<Rightarrow> config \<Rightarrow> nat \<Rightarrow> nat \<Rightarrow> jsval \<Rightarrow> error + mesh list" where
  "rungLoopBody h cfg numSegments i segment =
     (if nullish segment then Inl TypeError
      else
        (case getProp segment ''pct_change'' of
           JNum pctChange \<Rightarrow>
             (case getProp segment ''segment_type'' of
                JStr tag \<Rightarrow>
                  Inr (rung h cfg numSegments i segment pctChange
                       # pulses cfg numSegments i pctChange)
              | _ \<Rightarrow> Inl TypeError)
         | _ \<Rightarrow> Inl TypeError))"

fun rungLoop :: "host \<Rightarrow> config \<Rightarrow> nat \<Rightarrow> nat \<Rightarrow> jsval list \<Rightarrow> error + mesh list" where
  "rungLoop h cfg numSegments i [] = Inr []"
| "rungLoop h cfg numSegments i (segment # rest) =
     (case rungLoopBody h cfg numSegments i segment of
        Inl e \<Rightarrow> Inl e
      | Inr ms \<Rightarrow>
          (case rungLoop h cfg numSegments (Suc i) rest of
             Inl e \<Rightarrow> Inl e
           | Inr ms' \<Rightarrow> Inr (ms @ ms')))"

text \<open>
  \<^verbatim>\<open>createDNAHelix(data)\<close>: the outcome (the group, or the exception) and the
  visualizer afterwards. The group is stored in \<open>dnaGroup\<close> only on the path that
  reaches line 328.
\<close>

definition createDNAHelix ::
  "host \<Rightarrow> jsval list \<Rightarrow> visualizer \<Rightarrow> (error + group) \<times> visualizer" where
  "createDNAHelix h data this =
     (let numSegments = length data in
      if numSegments = 0 then (Inr \<lparr>children = [], rotationY = 0\<rparr>, this)
      else
        (case rungLoop h (config this) numSegments 0 data of
           Inl e \<Rightarrow> (Inl e, this)
         | Inr rungs \<Rightarrow>
             (let g = \<lparr>children = backbone1 (config this) # backbone2 (config this) # rungs,
                       rotationY = pi / 6\<rparr>
              in (Inr g, this\<lparr>dnaGroup := Some g\<rparr>))))"

section \<open>The visualizer facade\<close>

definition clearScene :: "visualizer \<Rightarrow> visualizer" where
  "clearScene this =
     (case dnaGroup this of
        Some g \<Rightarrow> this\<lparr>scene := remove1 g (scene this), dnaGroup := None\<rparr>
      | None \<Rightarrow> this)"

definition rebuildDNA :: "host \<Rightarrow> jsval list \<Rightarrow> visualizer \<Rightarrow> (error + group) \<times> visualizer" where
  "rebuildDNA h data this =
     (case createDNAHelix h data (clearScene this) of
        (Inl e, this') \<Rightarrow> (Inl e, this')
      | (Inr dna, this') \<Rightarrow> (Inr dna, this'\<lparr>scene := scene this' @ [dna]\<rparr>))"

text \<open>
  \<^verbatim>\<open>loadFromText(jsonText)\<close>; the result \<open>None\<close> is \<^verbatim>\<open>null\<close>. Inside the
  \<^verbatim>\<open>try\<close>, \<^verbatim>\<open>rawData.length\<close> throws for the parsed value \<^verbatim>\<open>null\<close>, which the
  \<^verbatim>\<open>catch\<close> turns into the result \<^verbatim>\<open>null\<close> as well. Lines 397 to 407 count the
  types for a line of the log only.
\<close>

definition loadFromText ::
  "host \<Rightarrow> string \<Rightarrow> visualizer \<Rightarrow> (error + group option) \<times> visualizer" where
  "loadFromText h jsonText this =
     (case JSON_parse h jsonText of
        None \<Rightarrow> (Inr None, this)
      | Some rawData \<Rightarrow>
          if nullish rawData then (Inr None, this)
          else
            (case validateData rawData of
               Inl e \<Rightarrow> (Inl e, this)
             | Inr data \<Rightarrow>
                 if length data = 0 then (Inr None, this)
                 else
                   (let this1 = this\<lparr>lastLoadedData := Some data\<rparr> in
                    case filterSegmentsByType data (selectedType this1) of
                      Inl e \<Rightarrow> (Inl e, this1)
                    | Inr filteredData \<Rightarrow>
                        (case rebuildDNA h filteredData this1 of
                           (Inl e, this2) \<Rightarrow> (Inl e, this2)
                         | (Inr dna, this2) \<Rightarrow> (Inr (Some dna), this2)))))"

definition updateVisualization :: "host \<Rightarrow> visualizer \<Rightarrow> (error + unit) \<times> visualizer" where
  "updateVisualization h this =
     (case lastLoadedData this of
        None \<Rightarrow> (Inr (), this)
      | Some d \<Rightarrow>
          (case filterSegmentsByType d (selectedType this) of
             Inl e \<Rightarrow> (Inl e, this)
           | Inr filteredData \<Rightarrow>
               (case rebuildDNA h filteredData this of
                  (Inl e, this') \<Rightarrow> (Inl e, this')
                | (Inr dna, this') \<Rightarrow> (Inr (), this'))))"

section \<open>Statistics\<close>

record stats =
  totalSegments :: nat
  typeCounts :: "string \<rightharpoonup> count"
  volatility :: string

text \<open>
  \<^verbatim>\<open>Math.abs(v)\<close> and the property key of \<^verbatim>\<open>typeCounts[v]\<close>.
\<close>

definition mathAbs :: "host \<Rightarrow> jsval \<Rightarrow> num" where
  "mathAbs h v = (case v of JNum r \<Rightarrow> Some \<bar>r\<bar> | _ \<Rightarrow> map_option abs (ToNumber h v))"

definition propertyKey :: "host \<Rightarrow> jsval \<Rightarrow> string" where
  "propertyKey h v = (case v of JStr s \<Rightarrow> s | _ \<Rightarrow> ToString h v)"

text \<open>
  The counter object \<^verbatim>\<open>typeCounts = {}\<close> is the map of its own properties, but the
  read \<^verbatim>\<open>typeCounts[k]\<close> of a key that is not an own property finds the member of
  that name that every object inherits, if there is one. The inherited members that
  are functions are listed here; a function is truthy, and adding 1 to it
  concatenates its text with \<^verbatim>\<open>"1"\<close>. The inherited \<^verbatim>\<open>__proto__\<close> is an accessor:
  it reads as an object, and an assignment of a string to it stores nothing.
\<close>

definition objectPrototypeFunctions :: "string list" where
  "objectPrototypeFunctions =
     [''constructor'', ''hasOwnProperty'', ''isPrototypeOf'', ''propertyIsEnumerable'',
      ''toLocaleString'', ''toString'', ''valueOf'', ''__defineGetter__'',
      ''__defineSetter__'', ''__lookupGetter__'', ''__lookupSetter__'']"

text \<open>
  \<^verbatim>\<open>(typeCounts[k] || 0) + 1\<close> for an own property: a count goes up by one, a
  text that is not empty gets \<^verbatim>\<open>"1"\<close> appended.
\<close>

fun bump :: "count \<Rightarrow> count" where
  "bump (Count n) = Count (n + 1)"
| "bump (Text s) = (if s = [] then Count 1 else Text (s @ ''1''))"

text \<open>The assignment \<^verbatim>\<open>typeCounts[k] = (typeCounts[k] || 0) + 1\<close>.\<close>

definition countType :: "host \<Rightarrow> (string \<rightharpoonup> count) \<Rightarrow> string \<Rightarrow> (string \<rightharpoonup> count)" where
  "countType h counts k =
     (case counts k of
        Some v \<Rightarrow> counts(k \<mapsto> bump v)
      | None \<Rightarrow>
          if k = ''__proto__'' then counts
          else if k \<in> set objectPrototypeFunctions
            then counts(k \<mapsto> Text (InheritedText h k @ ''1''))
          else counts(k \<mapsto> Count 1))"

text \<open>The decimal digits of a natural number.\<close>

definition digit :: "nat \<Rightarrow> char" where
  "digit d = ''0123456789'' ! d"

fun decimal :: "nat \<Rightarrow> string" where
  "decimal n = (if n < 10 then [digit n] else decimal (n div 10) @ [digit (n mod 10)])"

text \<open>
  \<^verbatim>\<open>x.toFixed(2)\<close>: the sign, then the integer \<open>n\<close> nearest to \<open>100 \<bar>x\<bar>\<close> (the larger
  one of two) with a point before its last two digits.
\<close>

definition toFixed2 :: "host \<Rightarrow> num \<Rightarrow> string" where
  "toFixed2 h x =
     (case x of
        None \<Rightarrow> ''NaN''
      | Some r \<Rightarrow>
          (if r < 0 then ''-'' else []) @
          (if 10 ^ 21 \<le> \<bar>r\<bar> then ToString h (JNum \<bar>r\<bar>)
           else
             (let n = nat \<lfloor>\<bar>r\<bar> * 100 + 1 / 2\<rfloor>
              in decimal (n div 100) @ ''.'' @ [digit (n mod 100 div 10), digit (n mod 10)])))"

text \<open>
  The \<^verbatim>\<open>forEach\<close> of lines 465 to 468, on the pair of its two accumulators. The sum
  is a sum of doubles.
\<close>

fun statsLoop ::
  "host \<Rightarrow> jsval list \<Rightarrow> (string \<rightharpoonup> count) \<times> num \<Rightarrow> error + (string \<rightharpoonup> count) \<times> num" where
  "statsLoop h [] acc = Inr acc"
| "statsLoop h (segment # rest) (counts, totalAbsChange) =
     (if nullish segment then Inl TypeError
      else
        statsLoop h rest
          (countType h counts (propertyKey h (getProp segment ''segment_type'')),
           num2 (fadd h) totalAbsChange (mathAbs h (getProp segment ''pct_change''))))"

text \<open>
  \<^verbatim>\<open>calculateStats(data = null)\<close>; the argument \<open>None\<close> is a missing or \<^verbatim>\<open>null\<close>
  argument, the result \<open>None\<close> is \<^verbatim>\<open>null\<close>. An array is truthy, also when empty.
  The quotient is a quotient of doubles, and \<^verbatim>\<open>toFixed\<close> prints the digits of the
  double that it is.
\<close>

definition calculateStats :: "host \<Rightarrow> jsval list option \<Rightarrow> visualizer \<Rightarrow> error + stats option" where
  "calculateStats h data this =
     (let dataToUse = (case data of Some d \<Rightarrow> Some d | None \<Rightarrow> lastLoadedData this) in
      case dataToUse of
        None \<Rightarrow> Inr None
      | Some d \<Rightarrow>
          if length d = 0 then Inr None
          else
            (case statsLoop h d (Map.empty, Some 0) of
               Inl e \<Rightarrow> Inl e
             | Inr (counts, totalAbsChange) \<Rightarrow>
                 Inr (Some \<lparr>totalSegments = length d,
                            typeCounts = counts,
                            volatility =
                              toFixed2 h (num2 (fdiv h) totalAbsChange (Some (real (length d))))
                                @ ''%''\<rparr>)))"

section \<open>Sample data\<close>

text \<open>A JSON text of two segments, one of each type, and the value it parses to.\<close>

definition quoted :: "string \<Rightarrow> string" where
  "quoted s = CHR 0x22 # s @ [CHR 0x22]"

definition twoSegmentsText :: string where
  "twoSegmentsText =
     ''[{'' @ quoted ''segment_type'' @ '':'' @ quoted ''negative'' @ '','' @
     quoted ''start_index'' @ '':0,'' @ quoted ''end_index'' @ '':4,'' @
     quoted ''start_price'' @ '':100,'' @ quoted ''end_price'' @ '':98,'' @
     quoted ''pct_change'' @ '':-2},{'' @ quoted ''segment_type'' @ '':'' @
     quoted ''optimal'' @ '','' @ quoted ''start_index'' @ '':4,'' @
     quoted ''end_index'' @ '':14,'' @ quoted ''start_price'' @ '':98,'' @
     quoted ''end_price'' @ '':107.8,'' @ quoted ''pct_change'' @ '':10}]''"

definition twoSegments :: "jsval list" where
  "twoSegments =
     [mkSegment (JStr ''negative'') 0 4 100 98 (-2),
      mkSegment (JStr ''optimal'') 4 14 98 107.8 10]"

text \<open>
  A host for the examples. It agrees with the built-ins on what the examples pass to
  it: the two texts for \<^verbatim>\<open>JSON.parse\<close>; for \<^verbatim>\<open>parseInt\<close> the numbers that are
  integers below \<open>10\<^sup>2\<^sup>1\<close> in magnitude, on which \<^verbatim>\<open>parseInt\<close> returns the number;
  for the sum and the quotient of doubles the small integers, on which they are
  exact. No example consults its other answers or its two coercions.
\<close>

definition exampleHost :: host where
  "exampleHost =
     \<lparr>JSON_parse = (\<lambda>s. if s = ''[]'' then Some (JArr [])
                         else if s = twoSegmentsText then Some (JArr twoSegments)
                         else None),
      parseInt = (\<lambda>v. case v of
                         JNum r \<Rightarrow> if r = of_int \<lfloor>r\<rfloor> \<and> \<bar>r\<bar> < 10 ^ 21 then Some r else None
                       | _ \<Rightarrow> None),
      ToNumber = (\<lambda>v. None),
      ToString = (\<lambda>v. []),
      fadd = (+),
      fdiv = (/),
      InheritedText =
        (\<lambda>k. ''function '' @ (if k = ''constructor'' then ''Object'' else k)
               @ ''() { [native code] }'')\<rparr>"

section \<open>What the specification says of the output\<close>

text \<open>
  The kinds of mesh in a group, and the formulas of the specification for a rung and
  its pulse effects, written as the specification words them. The properties below
  compare them with what \<open>createDNAHelix\<close> builds.
\<close>

definition isTube :: "mesh \<Rightarrow> bool" where
  "isTube m = (case geometry m of TubeGeometry _ _ _ _ _ \<Rightarrow> True | _ \<Rightarrow> False)"

definition isRung :: "mesh \<Rightarrow> bool" where
  "isRung m = (case geometry m of CylinderGeometry _ _ _ _ _ _ \<Rightarrow> True | _ \<Rightarrow> False)"

definition isPulse :: "mesh \<Rightarrow> bool" where
  "isPulse m = (case geometry m of SphereGeometry _ _ _ \<Rightarrow> True | _ \<Rightarrow> False)"

definition spec_baseRadius :: "real \<Rightarrow> real" where
  "spec_baseRadius pctChange = 0.3 + min 0.5 (\<bar>pctChange\<bar> * 0.03)"

definition spec_scaleFactor :: "num \<Rightarrow> num \<Rightarrow> num" where
  "spec_scaleFactor endIndex startIndex =
     (case endIndex of
        None \<Rightarrow> None
      | Some e \<Rightarrow>
          (case startIndex of
             None \<Rightarrow> None
           | Some s \<Rightarrow> Some (min 1.5 (log 10 (max 1 (e - s)) + 0.5))))"

definition spec_rungRadius :: "real \<Rightarrow> num \<Rightarrow> num \<Rightarrow> num" where
  "spec_rungRadius pctChange endIndex startIndex =
     map_option (\<lambda>scale. spec_baseRadius pctChange * scale)
       (spec_scaleFactor endIndex startIndex)"

definition spec_emissive :: "real \<Rightarrow> real" where
  "spec_emissive pctChange = min 0.4 (\<bar>pctChange\<bar> * 0.03 + 0.1)"

definition spec_pulseCount :: "real \<Rightarrow> nat" where
  "spec_pulseCount pctChange =
     (if \<bar>pctChange\<bar> \<le> 5 then 0 else if \<bar>pctChange\<bar> \<le> 8 then 1 else 2)"

text \<open>
  What the specification says of the two degenerate cases: the helix of the empty
  list has no rung and two backbone tubes, and a load without a valid segment
  returns and renders an empty group.
\<close>

definition spec_emptyHelix :: "group \<Rightarrow> bool" where
  "spec_emptyHelix g =
     (length (filter isRung (children g)) = 0 \<and> length (filter isTube (children g)) = 2)"

definition spec_rendersEmptyStructure :: "(error + group option) \<times> visualizer \<Rightarrow> bool" where
  "spec_rendersEmptyStructure r =
     (case fst r of
        Inr (Some g) \<Rightarrow> filter isRung (children g) = [] \<and> g \<in> set (scene (snd r))
      | _ \<Rightarrow> False)"

text \<open>A rung as the specification describes it for the segment \<open>seg\<close>.\<close>

definition rungOk :: "host \<Rightarrow> config \<Rightarrow> jsval \<Rightarrow> mesh \<Rightarrow> bool" where
  "rungOk h cfg seg m =
     (\<exists>p. getProp seg ''pct_change'' = JNum p
        \<and> geometry m =
            CylinderGeometry
              (spec_rungRadius p (parseInt h (getProp seg ''end_index''))
                 (parseInt h (getProp seg ''start_index'')))
              (spec_rungRadius p (parseInt h (getProp seg ''end_index''))
                 (parseInt h (getProp seg ''start_index'')))
              (helixRadius cfg * 2) 8 1 False
        \<and> material m = MeshStandardMaterial (spec_emissive p) 0.95)"

text \<open>
  The meshes added for one segment as the specification describes them: the rung,
  then as many pulse spheres as the percent change calls for.
\<close>

definition blockOk :: "jsval \<Rightarrow> mesh list \<Rightarrow> bool" where
  "blockOk seg b =
     (\<exists>p r ps. getProp seg ''pct_change'' = JNum p
        \<and> b = r # ps \<and> isRung r \<and> list_all isPulse ps
        \<and> length ps = spec_pulseCount p
        \<and> (if 5 < \<bar>p\<bar> \<and> \<bar>p\<bar> \<le> 8
           then map geometry ps = [SphereGeometry (0.8 + \<bar>p\<bar> * 0.05) 16 16]
           else True))"

text \<open>
  The statistics as the specification describes them, for a dataset whose segments
  carry a string tag that is not the name of an inherited member and a numeric
  percent change. The mean is the one of double arithmetic: the sum from left to
  right, then the quotient.
\<close>

definition typedSegment :: "jsval \<Rightarrow> bool" where
  "typedSegment s =
     (case getProp s ''segment_type'' of
        JStr tag \<Rightarrow>
          tag \<notin> set objectPrototypeFunctions \<and> tag \<noteq> ''__proto__''
          \<and> (case getProp s ''pct_change'' of JNum p \<Rightarrow> True | _ \<Rightarrow> False)
      | _ \<Rightarrow> False)"

definition pctChangeOf :: "jsval \<Rightarrow> real" where
  "pctChangeOf s = (case getProp s ''pct_change'' of JNum p \<Rightarrow> p | _ \<Rightarrow> 0)"

definition spec_typeCount :: "jsval list \<Rightarrow> string \<Rightarrow> nat" where
  "spec_typeCount data tag =
     length (filter (\<lambda>s. getProp s ''segment_type'' = JStr tag) data)"

definition spec_meanAbsChange :: "host \<Rightarrow> jsval list \<Rightarrow> real" where
  "spec_meanAbsChange h data =
     fdiv h (foldl (fadd h) 0 (map (\<lambda>s. \<bar>pctChangeOf s\<bar>) data)) (real (length data))"

text \<open>
  A segment that passes the validation and whose type is the name of an inherited
  function.
\<close>

definition constructorSegment :: jsval where
  "constructorSegment = mkSegment (JStr ''constructor'') 0 10 100 110 4"

text \<open>The example of the specification: two records with a type and a percent change.\<close>

definition statsExample :: "jsval list" where
  "statsExample =
     [JObj [(''segment_type'', JStr ''optimal''), (''pct_change'', JNum 4)],
      JObj [(''segment_type'', JStr ''negative''), (''pct_change'', JNum (-2))]]"

text \<open>The segment of the specification's example, with a percent change of 10.\<close>

definition tenPercent :: jsval where
  "tenPercent = mkSegment (JStr ''optimal'') 0 10 100 110 10"

text \<open>Ten records, three of which lack the percent change.\<close>

definition tenItems :: "jsval list" where
  "tenItems =
     [mkSegment (JStr ''optimal'') 0 10 100 110 10,
      noPctChange 10,
      mkSegment (JStr ''negative'') 11 20 110 105 (-4.5),
      mkSegment (JStr ''optimal'') 20 30 105 107 1.9,
      noPctChange 30,
      mkSegment (JStr ''optimal'') 0 10 100 110 10,
      mkSegment (JStr ''negative'') 31 32 107 106 (-0.9),
      noPctChange 32,
      mkSegment (JStr ''optimal'') 33 40 106 112 5.7,
      mkSegment (JStr ''other'') 40 41 112 112 0]"

section \<open>The orbit camera controller\<close>

text \<open>
  The part of an \<^verbatim>\<open>OrbitControls\<close> object that \<^verbatim>\<open>update\<close> reads and writes: the
  camera position, the target, the auto-rotation settings, the interaction state and
  the accumulators \<^verbatim>\<open>_spherical\<close>, \<^verbatim>\<open>_sphericalDelta\<close>, \<^verbatim>\<open>_scale\<close> and
  \<^verbatim>\<open>_panOffset\<close>. The orientation that \<^verbatim>\<open>camera.lookAt\<close> sets is left out.
\<close>

type_synonym vector3 = "real \<times> real \<times> real"

record Spherical =
  radius :: real
  phi :: real
  theta :: real

datatype orbitState = StateNone | StateRotate | StatePan

record controls =
  cameraPosition :: vector3
  target :: vector3
  autoRotate :: bool
  autoRotateSpeed :: real
  state :: orbitState
  spherical :: Spherical
  sphericalDelta :: Spherical
  scale :: real
  panOffset :: vector3












chapter \<open>Properties\<close>

section \<open>Validation\<close>

lemma filterE_total:
  "filterE (\<lambda>x. if bad x then Inl TypeError else Inr (P x)) xs =
     (if \<exists>x\<in>set xs. bad x then Inl TypeError else Inr (filter P xs))"
  by (induction xs) auto

lemma validSegment_alt:
  "validSegment = (\<lambda>x. if nullish x then Inl TypeError else Inr (keptByValidate x))"
  by (rule ext) (simp add: validSegment_def keptByValidate_def)

text \<open>
  The whole behaviour of \<open>validateData\<close>: nothing for a value that is not an array, a
  \<^verbatim>\<open>TypeError\<close> for an array with a \<^verbatim>\<open>null\<close> or \<^verbatim>\<open>undefined\<close> entry (the callback
  reads a property of it), and otherwise the entries that the callback accepts, in
  their order.
\<close>

lemma validateData_characterised:
  "validateData data =
     (case data of
        JArr xs \<Rightarrow> if \<exists>x\<in>set xs. nullish x then Inl TypeError
                   else Inr (filter keptByValidate xs)
      | _ \<Rightarrow> Inr [])"
  by (cases data) (simp_all add: validateData_def validSegment_alt filterE_total)

lemma validateData_no_nullish:
  assumes "validateData raw = Inr data"
  shows "\<forall>s\<in>set data. \<not> nullish s"
  using assms unfolding validateData_characterised
  by (cases raw) (auto split: if_splits)

lemma validateData_nonempty_raw:
  assumes "validateData raw = Inr data" and "data \<noteq> []"
  shows "\<not> nullish raw"
  using assms by (cases raw) (auto simp: validateData_def)

text \<open>
  Claim C7, as the specification states it, fails: a record in which all six fields
  are present is dropped when its \<open>segment_type\<close> is the empty string, because the
  callback tests that field for truthiness and not for presence.
\<close>

theorem validateData_presence_counterexample:
  "spec_allRequiredPresent (mkSegment (JStr []) 0 10 100 110 10)
   \<and> validateData (JArr [mkSegment (JStr []) 0 10 100 110 10]) = Inr []
   \<and> validateData (JArr [mkSegment (JStr []) 0 10 100 110 10])
       \<noteq> Inr (filter spec_allRequiredPresent [mkSegment (JStr []) 0 10 100 110 10])"
  by (simp add: validateData_def validSegment_def spec_allRequiredPresent_def mkSegment_def)

text \<open>
  Claim C7, amended: \<open>validateData\<close> returns the empty list, without throwing, for
  every value that is not an array; for every array without a \<^verbatim>\<open>null\<close> or
  \<^verbatim>\<open>undefined\<close> entry it returns exactly the entries whose \<open>segment_type\<close> is truthy
  and whose \<open>start_index\<close>, \<open>end_index\<close>, \<open>start_price\<close>, \<open>end_price\<close> and
  \<open>pct_change\<close> are present, in their original order and with duplicates kept.
\<close>

theorem validateData_spec:
  "((\<forall>xs. data \<noteq> JArr xs) \<longrightarrow> validateData data = Inr [])
   \<and> ((\<forall>x\<in>set xs. \<not> nullish x) \<longrightarrow>
        validateData (JArr xs) = Inr (filter keptByValidate xs))"
proof (intro conjI impI)
  assume "\<forall>xs. data \<noteq> JArr xs"
  then show "validateData data = Inr []"
    by (cases data) (simp_all add: validateData_def)
next
  assume "\<forall>x\<in>set xs. \<not> nullish x"
  then have "\<not> (\<exists>x\<in>set xs. nullish x)" by simp
  then show "validateData (JArr xs) = Inr (filter keptByValidate xs)"
    by (simp add: validateData_characterised)
qed

text \<open>
  At the example of the specification: of ten records, the three without
  \<open>pct_change\<close> are dropped and the other seven are returned in their order (the
  first and the sixth are equal, and both are kept). A value that is not an array
  gives the empty list.
\<close>

theorem validateData_spec_witness:
  "validateData (JStr ''not an array'') = Inr []
   \<and> validateData (JArr tenItems) =
       Inr [tenItems ! 0, tenItems ! 2, tenItems ! 3, tenItems ! 5, tenItems ! 6,
            tenItems ! 8, tenItems ! 9]
   \<and> tenItems ! 0 = tenItems ! 5"
proof -
  have n: "\<forall>x\<in>set tenItems. \<not> nullish x"
    by (simp add: tenItems_def mkSegment_def noPctChange_def)
  have a: "\<forall>xs. JStr ''not an array'' \<noteq> JArr xs" by simp
  have f: "filter keptByValidate tenItems =
             [tenItems ! 0, tenItems ! 2, tenItems ! 3, tenItems ! 5, tenItems ! 6,
              tenItems ! 8, tenItems ! 9]"
    by (simp add: tenItems_def keptByValidate_def mkSegment_def noPctChange_def)
  have e: "tenItems ! 0 = tenItems ! 5" by (simp add: tenItems_def)
  from validateData_spec [of "JStr ''not an array''" tenItems] n a f e
  show ?thesis by simp
qed

section \<open>The type filter\<close>

lemma filterSegmentsByType_valid:
  assumes "\<forall>s\<in>set data. \<not> nullish s"
  shows "filterSegmentsByType data ty =
           Inr (if ty = ''all'' then data
                else filter (\<lambda>s. getProp s ''segment_type'' = JStr ty) data)"
  using assms by (simp add: filterSegmentsByType_def filterE_total)

text \<open>
  Claim C9: with the type \<open>all\<close> the filter returns its input, the same elements in
  the same order; with any other type it returns exactly the segments whose
  \<open>segment_type\<close> is that type, in their original order. (A list of segments has no
  \<^verbatim>\<open>null\<close> or \<^verbatim>\<open>undefined\<close> entry.)
\<close>

theorem filterSegmentsByType_spec:
  "filterSegmentsByType data ''all'' = Inr data
   \<and> (ty \<noteq> ''all'' \<and> (\<forall>s\<in>set data. \<not> nullish s) \<longrightarrow>
        filterSegmentsByType data ty =
          Inr (filter (\<lambda>s. getProp s ''segment_type'' = JStr ty) data))"
proof (intro conjI impI)
  show "filterSegmentsByType data ''all'' = Inr data"
    by (simp add: filterSegmentsByType_def)
next
  assume a: "ty \<noteq> ''all'' \<and> (\<forall>s\<in>set data. \<not> nullish s)"
  then have "filterSegmentsByType data ty =
               Inr (if ty = ''all'' then data
                    else filter (\<lambda>s. getProp s ''segment_type'' = JStr ty) data)"
    by (simp add: filterSegmentsByType_valid)
  with a show "filterSegmentsByType data ty =
                 Inr (filter (\<lambda>s. getProp s ''segment_type'' = JStr ty) data)"
    by simp
qed

text \<open>On the two sample segments: all of them, and the negative one alone.\<close>

theorem filterSegmentsByType_spec_witness:
  "filterSegmentsByType twoSegments ''all'' = Inr twoSegments
   \<and> filterSegmentsByType twoSegments ''negative'' =
       Inr [mkSegment (JStr ''negative'') 0 4 100 98 (-2)]"
proof -
  have n: "\<forall>s\<in>set twoSegments. \<not> nullish s" by (simp add: twoSegments_def mkSegment_def)
  have t: "''negative'' \<noteq> ''all''" by simp
  have f: "filter (\<lambda>s. getProp s ''segment_type'' = JStr ''negative'') twoSegments
             = [mkSegment (JStr ''negative'') 0 4 100 98 (-2)]"
    by (simp add: twoSegments_def mkSegment_def)
  from filterSegmentsByType_spec [of twoSegments "''negative''"] n t f show ?thesis by simp
qed

section \<open>The helix generator\<close>

subsection \<open>The configuration fields that the generator reads\<close>

lemma rung_config:
  "helixTurns c = helixTurns c' \<Longrightarrow> helixRadius c = helixRadius c' \<Longrightarrow>
   rung h c n i seg p = rung h c' n i seg p \<and> pulses c n i p = pulses c' n i p"
  by (simp add: rung_def pulses_def rungPosition_def)

lemma rungLoopBody_config:
  assumes "helixTurns c = helixTurns c'" and "helixRadius c = helixRadius c'"
  shows "rungLoopBody h c n i seg = rungLoopBody h c' n i seg"
  using rung_config [OF assms]
  by (simp add: rungLoopBody_def split: jsval.splits)

lemma rungLoop_config:
  "helixTurns c = helixTurns c' \<Longrightarrow> helixRadius c = helixRadius c' \<Longrightarrow>
   rungLoop h c n i data = rungLoop h c' n i data"
proof (induction data arbitrary: i)
  case Nil
  show ?case by simp
next
  case (Cons seg rest)
  have "rungLoopBody h c n i seg = rungLoopBody h c' n i seg"
    using Cons.prems by (rule rungLoopBody_config)
  moreover have "rungLoop h c n (Suc i) rest = rungLoop h c' n (Suc i) rest"
    using Cons.prems by (rule Cons.IH)
  ultimately show ?case by (simp split: sum.splits)
qed

lemma backbone_config:
  "helixTurns c = helixTurns c' \<Longrightarrow> helixRadius c = helixRadius c' \<Longrightarrow>
   backboneThickness c = backboneThickness c' \<Longrightarrow>
   backbone1 c = backbone1 c' \<and> backbone2 c = backbone2 c'"
  by (simp add: backbone1_def backbone2_def backbone1Points_def backbone2Points_def)

text \<open>
  The group that \<open>createDNAHelix\<close> returns depends on the visualizer through three
  fields of its configuration only.
\<close>

lemma createDNAHelix_config:
  assumes "helixTurns (config a) = helixTurns (config b)"
    and "helixRadius (config a) = helixRadius (config b)"
    and "backboneThickness (config a) = backboneThickness (config b)"
  shows "fst (createDNAHelix h data a) = fst (createDNAHelix h data b)"
  using backbone_config [OF assms] rungLoop_config [OF assms(1,2)]
  by (simp add: createDNAHelix_def Let_def split: sum.splits)

text \<open>
  The samples of the first backbone, for a positive number of turns: there are
  \<open>\<lfloor>32 turns\<rfloor> + 1\<close> of them, and the one at index \<open>i\<close> has \<open>t = i / (32 turns)\<close>, the
  height \<open>200 (0.5 - t)\<close> and the angle \<open>2 \<pi> turns t\<close>, with the literals 200 and 32 of
  lines 119 and 130.
\<close>

lemma backbone1Points_length:
  "length (backbone1Points cfg) = nat (\<lfloor>helixTurns cfg * 32\<rfloor> + 1)"
  by (simp add: backbone1Points_def loopRange_def Let_def)

lemma backbone1Points_nth:
  assumes "0 < helixTurns cfg" and "real i \<le> helixTurns cfg * 32"
  shows "backbone1Points cfg ! i =
           (Some (helixRadius cfg * cos (2 * pi * helixTurns cfg * (real i / (helixTurns cfg * 32)))),
            Some (200 * (0.5 - real i / (helixTurns cfg * 32))),
            Some (helixRadius cfg * sin (2 * pi * helixTurns cfg * (real i / (helixTurns cfg * 32)))))"
proof -
  have "int i \<le> \<lfloor>helixTurns cfg * 32\<rfloor>" using assms(2) by (simp add: le_floor_iff)
  then have "i < nat (\<lfloor>helixTurns cfg * 32\<rfloor> + 1)" by linarith
  then show ?thesis using assms(1)
    by (simp add: backbone1Points_def loopRange_def Let_def)
qed

lemma backbone2Points_nth:
  assumes "0 < helixTurns cfg" and "real i \<le> helixTurns cfg * 32"
  shows "backbone2Points cfg ! i =
           (Some (helixRadius cfg * cos (2 * pi * helixTurns cfg * (real i / (helixTurns cfg * 32)) + pi)),
            Some (200 * (0.5 - real i / (helixTurns cfg * 32))),
            Some (helixRadius cfg * sin (2 * pi * helixTurns cfg * (real i / (helixTurns cfg * 32)) + pi)))"
proof -
  have "int i \<le> \<lfloor>helixTurns cfg * 32\<rfloor>" using assms(2) by (simp add: le_floor_iff)
  then have "i < nat (\<lfloor>helixTurns cfg * 32\<rfloor> + 1)" by linarith
  then show ?thesis using assms(1)
    by (simp add: backbone2Points_def loopRange_def Let_def)
qed

lemma backbone_thickness:
  "geometry (backbone1 cfg) =
     TubeGeometry (backbone1Points cfg) (helixTurns cfg * 32) (backboneThickness cfg) 8 False
   \<and> geometry (backbone2 cfg) =
     TubeGeometry (backbone2Points cfg) (helixTurns cfg * 32) (backboneThickness cfg) 8 False"
  by (simp add: backbone1_def backbone2_def)

text \<open>
  Claim C3 does not hold of the code. The constructor declares \<open>height\<close> and
  \<open>pointsPerTurn\<close> as configuration and \<open>setConfig\<close> stores a new value for either,
  but \<open>createDNAHelix\<close> reads only the turns, the radius and the thickness from the
  configuration and uses the literals 200 and 32 for the other two. Whatever values
  \<open>a\<close> and \<open>b\<close> the two fields are set to, the group built is the one built before;
  with the height set to 100 the first backbone sample is still at the height
  \<open>200 \<cdot> 0.5 = 100\<close>, where the claim's formula gives \<open>100 \<cdot> 0.5 = 50\<close>.
\<close>

theorem createDNAHelix_ignores_height_pointsPerTurn:
  "fst (createDNAHelix h data (setConfig ''height'' a (setConfig ''pointsPerTurn'' b this)))
     = fst (createDNAHelix h data this)
   \<and> height (config (setConfig ''height'' 100 (DNAVisualizer []))) = 100
   \<and> backbone1Points (config (setConfig ''height'' 100 (DNAVisualizer []))) ! 0
       = (Some 10, Some 100, Some 0)"
proof -
  have "fst (createDNAHelix h data (setConfig ''height'' a (setConfig ''pointsPerTurn'' b this)))
     = fst (createDNAHelix h data this)"
    by (rule createDNAHelix_config) (simp_all add: setConfig_def)
  moreover have "backbone1Points (config (setConfig ''height'' 100 (DNAVisualizer []))) ! 0
       = (Some 10, Some 100, Some 0)"
    using backbone1Points_nth [of "config (setConfig ''height'' 100 (DNAVisualizer []))" 0]
    by (simp add: setConfig_def DNAVisualizer_def)
  ultimately show ?thesis by (simp add: setConfig_def DNAVisualizer_def)
qed

subsection \<open>The empty segment list\<close>

text \<open>
  Claim C1, as the specification states it, fails: for the empty list the group that
  \<open>createDNAHelix\<close> returns holds no backbone tube at all, not two.
\<close>

theorem createDNAHelix_empty_counterexample:
  "(case fst (createDNAHelix exampleHost [] (DNAVisualizer [])) of
      Inr g \<Rightarrow> length (filter isTube (children g)) = 0 \<and> \<not> spec_emptyHelix g
    | Inl e \<Rightarrow> False)"
  by (simp add: createDNAHelix_def spec_emptyHelix_def)

text \<open>
  Claim C1, amended: for the empty segment list \<open>createDNAHelix\<close> returns, without
  throwing, a group with no children (no rung, no pulse effect and no backbone
  tube), and leaves the visualizer as it was (line 112 returns before anything is
  built).
\<close>

theorem createDNAHelix_empty:
  "createDNAHelix h [] this = (Inr \<lparr>children = [], rotationY = 0\<rparr>, this)"
  by (simp add: createDNAHelix_def)

subsection \<open>Rungs and pulse effects\<close>

lemma scaleFactor_eq:
  "scaleFactor h seg =
     spec_scaleFactor (parseInt h (getProp seg ''end_index''))
       (parseInt h (getProp seg ''start_index''))"
  by (cases "parseInt h (getProp seg ''end_index'')";
      cases "parseInt h (getProp seg ''start_index'')")
     (simp_all add: scaleFactor_def num2_def mathLog_def spec_scaleFactor_def log_def)

lemma rung_rungOk:
  "getProp seg ''pct_change'' = JNum p \<Longrightarrow> rungOk h cfg seg (rung h cfg n i seg p)"
  by (cases "spec_scaleFactor (parseInt h (getProp seg ''end_index''))
               (parseInt h (getProp seg ''start_index''))")
     (simp_all add: rungOk_def rung_def scaleFactor_eq spec_rungRadius_def spec_baseRadius_def
       spec_emissive_def num2_def Let_def)

lemma isRung_rung: "isRung (rung h cfg n i seg p)"
  by (simp add: isRung_def rung_def Let_def)

lemma pulses_spec:
  "list_all isPulse (pulses cfg n i p) \<and> length (pulses cfg n i p) = spec_pulseCount p
   \<and> (if 5 < \<bar>p\<bar> \<and> \<bar>p\<bar> \<le> 8
       then map geometry (pulses cfg n i p) = [SphereGeometry (0.8 + \<bar>p\<bar> * 0.05) 16 16]
       else True)"
  by (simp add: pulses_def isPulse_def spec_pulseCount_def)

lemma pulses_not_rung: "filter isRung (pulses cfg n i p) = []"
  by (simp add: pulses_def isRung_def)

lemma rungLoopBody_Inr:
  assumes "rungLoopBody h cfg n i seg = Inr ms"
  obtains p where "getProp seg ''pct_change'' = JNum p"
    and "ms = rung h cfg n i seg p # pulses cfg n i p"
  using assms
  by (auto simp: rungLoopBody_def split: if_splits jsval.splits)

lemma rungLoop_rungs:
  "rungLoop h cfg n i data = Inr ms \<Longrightarrow> list_all2 (rungOk h cfg) data (filter isRung ms)"
proof (induction data arbitrary: i ms)
  case Nil
  then show ?case by simp
next
  case (Cons seg rest)
  from Cons.prems obtain b ms' where b: "rungLoopBody h cfg n i seg = Inr b"
    and r: "rungLoop h cfg n (Suc i) rest = Inr ms'" and ms: "ms = b @ ms'"
    by (auto split: sum.splits)
  from b obtain p where p: "getProp seg ''pct_change'' = JNum p"
    and bd: "b = rung h cfg n i seg p # pulses cfg n i p"
    by (rule rungLoopBody_Inr)
  have "filter isRung ms = rung h cfg n i seg p # filter isRung ms'"
    by (simp add: ms bd isRung_rung pulses_not_rung)
  moreover have "rungOk h cfg seg (rung h cfg n i seg p)" using p by (rule rung_rungOk)
  moreover have "list_all2 (rungOk h cfg) rest (filter isRung ms')" using r by (rule Cons.IH)
  ultimately show ?case by simp
qed

lemma rungLoop_blocks:
  "rungLoop h cfg n i data = Inr ms \<Longrightarrow>
   \<exists>blocks. ms = concat blocks \<and> list_all2 blockOk data blocks"
proof (induction data arbitrary: i ms)
  case Nil
  then show ?case by simp
next
  case (Cons seg rest)
  from Cons.prems obtain b ms' where b: "rungLoopBody h cfg n i seg = Inr b"
    and r: "rungLoop h cfg n (Suc i) rest = Inr ms'" and ms: "ms = b @ ms'"
    by (auto split: sum.splits)
  from b obtain p where p: "getProp seg ''pct_change'' = JNum p"
    and bd: "b = rung h cfg n i seg p # pulses cfg n i p"
    by (rule rungLoopBody_Inr)
  have "blockOk seg b"
    unfolding blockOk_def
    using p bd isRung_rung [of h cfg n i seg p] pulses_spec [of cfg n i p]
    by blast
  moreover from Cons.IH [OF r] obtain blocks where "ms' = concat blocks"
    and "list_all2 blockOk rest blocks" by blast
  ultimately have "ms = concat (b # blocks) \<and> list_all2 blockOk (seg # rest) (b # blocks)"
    using ms by simp
  then show ?case by blast
qed

lemma rungLoop_noTube:
  "rungLoop h cfg n i data = Inr ms \<Longrightarrow> \<forall>m\<in>set ms. \<not> isTube m"
proof (induction data arbitrary: i ms)
  case Nil
  then show ?case by simp
next
  case (Cons seg rest)
  from Cons.prems obtain b ms' where b: "rungLoopBody h cfg n i seg = Inr b"
    and r: "rungLoop h cfg n (Suc i) rest = Inr ms'" and ms: "ms = b @ ms'"
    by (auto split: sum.splits)
  from b obtain p where bd: "b = rung h cfg n i seg p # pulses cfg n i p"
    by (rule rungLoopBody_Inr)
  have "\<forall>m\<in>set b. \<not> isTube m"
    by (auto simp: bd isTube_def rung_def pulses_def Let_def)
  with Cons.IH [OF r] ms show ?case by auto
qed

lemma isRung_backbone: "\<not> isRung (backbone1 cfg)" "\<not> isRung (backbone2 cfg)"
  by (simp_all add: isRung_def backbone1_def backbone2_def)

lemma isTube_backbone: "isTube (backbone1 cfg)" "isTube (backbone2 cfg)"
  by (simp_all add: isTube_def backbone1_def backbone2_def)

lemma createDNAHelix_Inr:
  assumes "createDNAHelix h data this = (Inr g, this')"
  shows "(data = [] \<and> children g = []) \<or>
         (\<exists>ms. rungLoop h (config this) (length data) 0 data = Inr ms
              \<and> children g = backbone1 (config this) # backbone2 (config this) # ms)"
  using assms by (auto simp: createDNAHelix_def Let_def split: if_splits sum.splits)

text \<open>The group built from the segment of the specification's example alone.\<close>

lemma tenPercent_build:
  "createDNAHelix exampleHost [tenPercent] (DNAVisualizer []) =
     (Inr \<lparr>children =
             backbone1 (config (DNAVisualizer [])) # backbone2 (config (DNAVisualizer []))
             # rung exampleHost (config (DNAVisualizer [])) 1 0 tenPercent 10
             # pulses (config (DNAVisualizer [])) 1 0 10,
           rotationY = pi / 6\<rparr>,
      (DNAVisualizer [])\<lparr>dnaGroup :=
        Some \<lparr>children =
                backbone1 (config (DNAVisualizer [])) # backbone2 (config (DNAVisualizer []))
                # rung exampleHost (config (DNAVisualizer [])) 1 0 tenPercent 10
                # pulses (config (DNAVisualizer [])) 1 0 10,
              rotationY = pi / 6\<rparr>\<rparr>)"
  by (simp add: createDNAHelix_def rungLoopBody_def tenPercent_def mkSegment_def Let_def)

lemma tenPercent_radius:
  "spec_rungRadius 10 (parseInt exampleHost (getProp tenPercent ''end_index''))
     (parseInt exampleHost (getProp tenPercent ''start_index'')) = Some 0.9"
  by (simp add: spec_rungRadius_def spec_scaleFactor_def spec_baseRadius_def exampleHost_def
      tenPercent_def mkSegment_def)

text \<open>
  Claim C5: whenever \<open>createDNAHelix\<close> returns a group, its rungs are, in the order
  of the segments, one cylinder per segment whose radius is the base radius
  \<open>0.3 + min(0.5, |pctChange| \<cdot> 0.03)\<close> times the scale factor
  \<open>min(1.5, log\<^sub>1\<^sub>0(max(1, endIndex - startIndex)) + 0.5)\<close> and whose material has the
  emissive intensity \<open>min(0.4, |pctChange| \<cdot> 0.03 + 0.1)\<close>, which is 0.4 for a percent
  change of 10. The two indices are the results of \<^verbatim>\<open>parseInt\<close> on the segment's
  fields; the radius is \<open>NaN\<close> when one of them is.
\<close>

theorem createDNAHelix_rungs:
  assumes "createDNAHelix h data this = (Inr g, this')"
  shows "list_all2 (rungOk h (config this)) data (filter isRung (children g))
         \<and> spec_emissive 10 = 0.4"
proof -
  have "list_all2 (rungOk h (config this)) data (filter isRung (children g))"
    using createDNAHelix_Inr [OF assms] rungLoop_rungs [of h "config this" "length data" 0 data]
    by (auto simp: isRung_backbone)
  moreover have "spec_emissive 10 = 0.4" by (simp add: spec_emissive_def)
  ultimately show ?thesis by simp
qed

text \<open>
  For the segment of the specification's example (indices 0 and 10, percent change
  10) the rung has the radius \<open>0.6 \<cdot> 1.5 = 0.9\<close>, the length 20 and the emissive
  intensity 0.4.
\<close>

theorem createDNAHelix_rungs_witness:
  "(case createDNAHelix exampleHost [tenPercent] (DNAVisualizer []) of
      (Inr g, this') \<Rightarrow>
         list_all2 (rungOk exampleHost (config (DNAVisualizer []))) [tenPercent]
           (filter isRung (children g))
         \<and> map geometry (filter isRung (children g)) =
             [CylinderGeometry (Some 0.9) (Some 0.9) 20 8 1 False]
         \<and> map material (filter isRung (children g)) = [MeshStandardMaterial 0.4 0.95]
    | (Inl e, this') \<Rightarrow> False)"
proof -
  let ?g = "\<lparr>children =
               backbone1 (config (DNAVisualizer [])) # backbone2 (config (DNAVisualizer []))
               # rung exampleHost (config (DNAVisualizer [])) 1 0 tenPercent 10
               # pulses (config (DNAVisualizer [])) 1 0 10,
             rotationY = pi / 6\<rparr>"
  have p: "getProp tenPercent ''pct_change'' = JNum 10"
    by (simp add: tenPercent_def mkSegment_def)
  have "list_all2 (rungOk exampleHost (config (DNAVisualizer []))) [tenPercent]
           (filter isRung (children ?g))"
    using createDNAHelix_rungs [OF tenPercent_build] by simp
  moreover then obtain m where m: "filter isRung (children ?g) = [m]"
    and ok: "rungOk exampleHost (config (DNAVisualizer [])) tenPercent m"
    by (auto simp: list_all2_Cons1)
  moreover from ok p tenPercent_radius
  have "geometry m = CylinderGeometry (Some 0.9) (Some 0.9) 20 8 1 False"
    and "material m = MeshStandardMaterial 0.4 0.95"
    by (auto simp: rungOk_def spec_emissive_def DNAVisualizer_def)
  ultimately show ?thesis by (simp add: tenPercent_build)
qed

text \<open>
  Claim C6: whenever \<open>createDNAHelix\<close> returns a group, its meshes other than the
  two backbone tubes are, segment by segment and in the order of the segments, the
  rung of the segment followed by its pulse spheres: none when \<open>|pctChange| \<le> 5\<close>, one
  of radius \<open>0.8 + |pctChange| \<cdot> 0.05\<close> when \<open>5 < |pctChange| \<le> 8\<close>, and two when
  \<open>|pctChange| > 8\<close>.
\<close>

theorem createDNAHelix_pulses:
  assumes "createDNAHelix h data this = (Inr g, this')"
  shows "\<exists>blocks. filter (\<lambda>m. \<not> isTube m) (children g) = concat blocks
           \<and> list_all2 blockOk data blocks"
proof -
  from createDNAHelix_Inr [OF assms] show ?thesis
  proof
    assume "data = [] \<and> children g = []"
    then have "filter (\<lambda>m. \<not> isTube m) (children g) = concat []
                 \<and> list_all2 blockOk data []"
      by simp
    then show ?thesis by blast
  next
    assume "\<exists>ms. rungLoop h (config this) (length data) 0 data = Inr ms
              \<and> children g = backbone1 (config this) # backbone2 (config this) # ms"
    then obtain ms where r: "rungLoop h (config this) (length data) 0 data = Inr ms"
      and c: "children g = backbone1 (config this) # backbone2 (config this) # ms" by blast
    from rungLoop_blocks [OF r] obtain blocks where b: "ms = concat blocks"
      and ok: "list_all2 blockOk data blocks" by blast
    have "\<forall>m\<in>set ms. \<not> isTube m"
      using rungLoop_noTube [OF r] .
    then have "filter (\<lambda>m. \<not> isTube m) ms = ms" by simp
    then have "filter (\<lambda>m. \<not> isTube m) (children g) = concat blocks"
      using c b by (simp add: isTube_backbone)
    with ok show ?thesis by blast
  qed
qed

text \<open>
  For the segment of the specification's example, whose percent change of 10 exceeds
  8, the group holds two pulse spheres.
\<close>

theorem createDNAHelix_pulses_witness:
  "(case createDNAHelix exampleHost [tenPercent] (DNAVisualizer []) of
      (Inr g, this') \<Rightarrow>
         (\<exists>blocks. filter (\<lambda>m. \<not> isTube m) (children g) = concat blocks
            \<and> list_all2 blockOk [tenPercent] blocks)
         \<and> length (filter isPulse (children g)) = 2
    | (Inl e, this') \<Rightarrow> False)"
proof -
  let ?g = "\<lparr>children =
               backbone1 (config (DNAVisualizer [])) # backbone2 (config (DNAVisualizer []))
               # rung exampleHost (config (DNAVisualizer [])) 1 0 tenPercent 10
               # pulses (config (DNAVisualizer [])) 1 0 10,
             rotationY = pi / 6\<rparr>"
  have "\<exists>blocks. filter (\<lambda>m. \<not> isTube m) (children ?g) = concat blocks
            \<and> list_all2 blockOk [tenPercent] blocks"
    using createDNAHelix_pulses [OF tenPercent_build] .
  moreover have "length (filter isPulse (children ?g)) = 2"
    by (simp add: isPulse_def backbone1_def backbone2_def rung_def pulses_def Let_def)
  ultimately show ?thesis by (simp add: tenPercent_build)
qed

section \<open>Loading\<close>

lemma createDNAHelix_state:
  "lastLoadedData (snd (createDNAHelix h data this)) = lastLoadedData this
   \<and> selectedType (snd (createDNAHelix h data this)) = selectedType this
   \<and> config (snd (createDNAHelix h data this)) = config this"
  by (simp add: createDNAHelix_def Let_def split: sum.splits)

lemma clearScene_state:
  "lastLoadedData (clearScene this) = lastLoadedData this
   \<and> selectedType (clearScene this) = selectedType this
   \<and> config (clearScene this) = config this"
  by (simp add: clearScene_def split: option.splits)

lemma rebuildDNA_state:
  "lastLoadedData (snd (rebuildDNA h data this)) = lastLoadedData this
   \<and> selectedType (snd (rebuildDNA h data this)) = selectedType this
   \<and> config (snd (rebuildDNA h data this)) = config this"
proof -
  obtain r s where c: "createDNAHelix h data (clearScene this) = (r, s)"
    by (cases "createDNAHelix h data (clearScene this)")
  from createDNAHelix_state [of h data "clearScene this"] c clearScene_state [of this]
  show ?thesis by (cases r) (simp_all add: rebuildDNA_def)
qed

lemma rebuildDNA_fst:
  "fst (rebuildDNA h data this) = fst (createDNAHelix h data (clearScene this))"
  by (cases "createDNAHelix h data (clearScene this)")
     (auto simp: rebuildDNA_def split: sum.splits)

text \<open>
  Claim C2, as the specification states it, fails: for the text \<^verbatim>\<open>[]\<close>, whose
  validated list is empty, \<open>loadFromText\<close> returns \<^verbatim>\<open>null\<close> and renders nothing; the
  scene holds no group afterwards and \<open>dnaGroup\<close> is still unset.
\<close>

theorem loadFromText_empty_counterexample:
  "validateData (JArr []) = Inr []
   \<and> loadFromText exampleHost ''[]'' (DNAVisualizer []) = (Inr None, DNAVisualizer [])
   \<and> scene (snd (loadFromText exampleHost ''[]'' (DNAVisualizer []))) = []
   \<and> dnaGroup (snd (loadFromText exampleHost ''[]'' (DNAVisualizer []))) = None
   \<and> \<not> spec_rendersEmptyStructure (loadFromText exampleHost ''[]'' (DNAVisualizer []))"
  by (simp add: loadFromText_def exampleHost_def validateData_def DNAVisualizer_def
      spec_rendersEmptyStructure_def)

text \<open>
  Claim C2, amended: for every load whose validated segment list is empty,
  \<open>loadFromText\<close> returns \<^verbatim>\<open>null\<close> without throwing and leaves the visualizer
  unchanged: nothing is rendered, and the scene, the current group and the last
  loaded data stay as they were (line 389 returns before the rebuild).
\<close>

theorem loadFromText_empty:
  assumes "JSON_parse h jsonText = Some rawData" and "validateData rawData = Inr []"
  shows "loadFromText h jsonText this = (Inr None, this)"
proof (cases "nullish rawData")
  case True
  with assms(1) show ?thesis by (simp add: loadFromText_def)
next
  case False
  with assms show ?thesis by (simp add: loadFromText_def)
qed

theorem loadFromText_empty_witness:
  "JSON_parse exampleHost ''[]'' = Some (JArr []) \<and> validateData (JArr []) = Inr []
   \<and> loadFromText exampleHost ''[]'' (DNAVisualizer []) = (Inr None, DNAVisualizer [])"
proof -
  have p: "JSON_parse exampleHost ''[]'' = Some (JArr [])" by (simp add: exampleHost_def)
  have v: "validateData (JArr []) = Inr []" by (simp add: validateData_def)
  from loadFromText_empty [OF p v] p v show ?thesis by simp
qed

text \<open>
  Claim C10: the constructor sets the type filter to \<open>optimal\<close>. While the filter has
  that value (no \<open>setSelectedType\<close> has changed it), a load that parses and has a
  valid segment builds the helix from the segments of type \<open>optimal\<close> alone: the
  outcome of \<open>loadFromText\<close> is that of \<open>createDNAHelix\<close> on those segments. The
  last loaded data are the whole validated list.
\<close>

theorem loadFromText_default_type:
  assumes "JSON_parse h jsonText = Some rawData"
    and "validateData rawData = Inr data" and "data \<noteq> []"
    and "selectedType this = ''optimal''"
  shows "selectedType (DNAVisualizer sc) = ''optimal''
     \<and> fst (loadFromText h jsonText this) =
         map_sum id Some
           (fst (createDNAHelix h
                  (filter (\<lambda>s. getProp s ''segment_type'' = JStr ''optimal'') data) this))
     \<and> getLastLoadedData (snd (loadFromText h jsonText this)) = Some data"
proof -
  let ?opt = "filter (\<lambda>s. getProp s ''segment_type'' = JStr ''optimal'') data"
  let ?this1 = "this\<lparr>lastLoadedData := Some data\<rparr>"
  have st: "selectedType (DNAVisualizer sc) = ''optimal''" by (simp add: DNAVisualizer_def)
  have f: "filterSegmentsByType data ''optimal'' = Inr ?opt"
    using filterSegmentsByType_valid [OF validateData_no_nullish [OF assms(2)], of "''optimal''"]
    by simp
  obtain r s where rb: "rebuildDNA h ?opt ?this1 = (r, s)"
    by (cases "rebuildDNA h ?opt ?this1")
  have l: "loadFromText h jsonText this = (map_sum id Some r, s)"
    using assms validateData_nonempty_raw [OF assms(2,3)] f rb
    by (cases r) (simp_all add: loadFromText_def Let_def)
  have "r = fst (createDNAHelix h ?opt (clearScene ?this1))"
    using rebuildDNA_fst [of h ?opt ?this1] rb by simp
  also have "\<dots> = fst (createDNAHelix h ?opt this)"
    by (rule createDNAHelix_config) (simp_all add: clearScene_state)
  finally have r: "r = fst (createDNAHelix h ?opt this)" .
  have "lastLoadedData s = Some data"
    using rebuildDNA_state [of h ?opt ?this1] rb by simp
  with st l r show ?thesis by (simp add: getLastLoadedData_def)
qed

lemma twoSegments_parse: "JSON_parse exampleHost twoSegmentsText = Some (JArr twoSegments)"
  by (simp add: exampleHost_def twoSegmentsText_def quoted_def)

lemma twoSegments_valid: "validateData (JArr twoSegments) = Inr twoSegments"
  by (simp add: validateData_def validSegment_def twoSegments_def mkSegment_def)

text \<open>
  The first load of a text with a negative and an optimal segment: the helix is the
  one built from the optimal segment alone, and both segments are the last loaded
  data.
\<close>

theorem loadFromText_default_type_witness:
  "fst (loadFromText exampleHost twoSegmentsText (DNAVisualizer [])) =
     map_sum id Some
       (fst (createDNAHelix exampleHost [mkSegment (JStr ''optimal'') 4 14 98 107.8 10]
              (DNAVisualizer [])))
   \<and> getLastLoadedData (snd (loadFromText exampleHost twoSegmentsText (DNAVisualizer [])))
       = Some twoSegments"
proof -
  have ne: "twoSegments \<noteq> []" by (simp add: twoSegments_def)
  have st: "selectedType (DNAVisualizer []) = ''optimal''" by (simp add: DNAVisualizer_def)
  have f: "filter (\<lambda>s. getProp s ''segment_type'' = JStr ''optimal'') twoSegments
             = [mkSegment (JStr ''optimal'') 4 14 98 107.8 10]"
    by (simp add: twoSegments_def mkSegment_def)
  from loadFromText_default_type [OF twoSegments_parse twoSegments_valid ne st, of "[]"]
  show ?thesis by (simp add: f)
qed

section \<open>Statistics\<close>

text \<open>
  The two decimals of \<open>toFixed2\<close> are those of the hundredth nearest to the number:
  the integer that it prints with a point before its last two digits is within one
  half of a hundred times the number.
\<close>

lemma toFixed2_digits:
  assumes "0 \<le> r" and "r < 10 ^ 21"
  shows "toFixed2 h (Some r) =
           decimal (nat \<lfloor>r * 100 + 1 / 2\<rfloor> div 100) @ ''.'' @
           [digit (nat \<lfloor>r * 100 + 1 / 2\<rfloor> mod 100 div 10),
            digit (nat \<lfloor>r * 100 + 1 / 2\<rfloor> mod 10)]"
    and "\<bar>real (nat \<lfloor>r * 100 + 1 / 2\<rfloor>) - r * 100\<bar> \<le> 1 / 2"
proof -
  show "toFixed2 h (Some r) =
           decimal (nat \<lfloor>r * 100 + 1 / 2\<rfloor> div 100) @ ''.'' @
           [digit (nat \<lfloor>r * 100 + 1 / 2\<rfloor> mod 100 div 10),
            digit (nat \<lfloor>r * 100 + 1 / 2\<rfloor> mod 10)]"
    using assms by (simp add: toFixed2_def Let_def)
  have "0 \<le> \<lfloor>r * 100 + 1 / 2\<rfloor>" using assms(1) by simp
  then have "real (nat \<lfloor>r * 100 + 1 / 2\<rfloor>) = of_int \<lfloor>r * 100 + 1 / 2\<rfloor>" by simp
  then show "\<bar>real (nat \<lfloor>r * 100 + 1 / 2\<rfloor>) - r * 100\<bar> \<le> 1 / 2"
    by linarith
qed

text \<open>
  Claim C8 does not hold of the code. A segment whose type is \<open>constructor\<close> passes
  the validation and occurs once in the dataset that holds it alone, but
  \<^verbatim>\<open>typeCounts[segment.segment_type] || 0\<close> reads the function of that name which the
  counter object inherits, so the entry of \<open>typeCounts\<close> for the type is the text of
  that function followed by \<^verbatim>\<open>1\<close> and not the count 1.
\<close>

theorem calculateStats_inherited_type:
  "validateData (JArr [constructorSegment]) = Inr [constructorSegment]
   \<and> spec_typeCount [constructorSegment] ''constructor'' = 1
   \<and> (\<exists>st. calculateStats h (Some [constructorSegment]) this = Inr (Some st)
         \<and> totalSegments st = 1
         \<and> typeCounts st ''constructor'' = Some (Text (InheritedText h ''constructor'' @ ''1''))
         \<and> typeCounts st ''constructor'' \<noteq> Some (Count 1))"
proof -
  have v: "validateData (JArr [constructorSegment]) = Inr [constructorSegment]"
    by (simp add: validateData_def validSegment_def constructorSegment_def mkSegment_def)
  have c: "spec_typeCount [constructorSegment] ''constructor'' = 1"
    by (simp add: spec_typeCount_def constructorSegment_def mkSegment_def)
  have k: "countType h Map.empty ''constructor''
             = [''constructor'' \<mapsto> Text (InheritedText h ''constructor'' @ ''1'')]"
    by (simp add: countType_def objectPrototypeFunctions_def)
  have l: "statsLoop h [constructorSegment] (Map.empty, Some 0)
             = Inr ([''constructor'' \<mapsto> Text (InheritedText h ''constructor'' @ ''1'')],
                    Some (fadd h 0 4))"
    by (simp add: constructorSegment_def mkSegment_def propertyKey_def mathAbs_def num2_def k)
  have "calculateStats h (Some [constructorSegment]) this
          = Inr (Some \<lparr>totalSegments = 1,
                       typeCounts = [''constructor'' \<mapsto> Text (InheritedText h ''constructor'' @ ''1'')],
                       volatility = toFixed2 h (Some (fdiv h (fadd h 0 4) 1)) @ ''%''\<rparr>)"
    by (simp add: calculateStats_def l num2_def del: statsLoop.simps)
  with v c show ?thesis by simp
qed

text \<open>
  For the other datasets the counts are the numbers of occurrences. The loop over a
  dataset of typed segments, from any counters \<open>m\<close> that are counts and any sum \<open>a\<close>:
  it adds to each counter the number of segments of that type, and to the sum the
  absolute percent changes, from left to right.
\<close>

lemma statsLoop_typed:
  assumes "\<forall>s\<in>set data. typedSegment s"
    and "\<forall>k. m k = None \<or> (\<exists>n. m k = Some (Count n))"
  shows "\<exists>m'. statsLoop h data (m, Some a)
                 = Inr (m', Some (foldl (fadd h) a (map (\<lambda>s. \<bar>pctChangeOf s\<bar>) data)))
            \<and> (\<forall>k. m' k =
                  (if spec_typeCount data k = 0 then m k
                   else Some (Count ((case m k of Some (Count n) \<Rightarrow> n | _ \<Rightarrow> 0)
                                     + spec_typeCount data k))))"
  using assms
proof (induction data arbitrary: m a)
  case Nil
  then show ?case by (simp add: spec_typeCount_def)
next
  case (Cons s rest)
  from Cons.prems have ts: "typedSegment s" and tr: "\<forall>s\<in>set rest. typedSegment s"
    by simp_all
  from ts obtain tag p where tag: "getProp s ''segment_type'' = JStr tag"
    and p: "getProp s ''pct_change'' = JNum p"
    and own: "tag \<notin> set objectPrototypeFunctions" "tag \<noteq> ''__proto__''"
    by (auto simp: typedSegment_def split: jsval.splits)
  from tag have nn: "\<not> nullish s" by (cases s) auto
  let ?m1 = "m(tag \<mapsto> Count ((case m tag of Some (Count n) \<Rightarrow> n | _ \<Rightarrow> 0) + 1))"
  have ct: "countType h m tag = ?m1"
    using own Cons.prems(2) [rule_format, of tag]
    by (auto simp: countType_def)
  have step: "statsLoop h (s # rest) (m, Some a) = statsLoop h rest (?m1, Some (fadd h a \<bar>p\<bar>))"
    using nn tag p by (simp add: propertyKey_def mathAbs_def num2_def ct)
  have inv: "\<forall>k. ?m1 k = None \<or> (\<exists>n. ?m1 k = Some (Count n))"
    using Cons.prems(2) by auto
  from Cons.IH [OF tr inv, of "fadd h a \<bar>p\<bar>"] obtain m' where
    r: "statsLoop h rest (?m1, Some (fadd h a \<bar>p\<bar>))
          = Inr (m', Some (foldl (fadd h) (fadd h a \<bar>p\<bar>) (map (\<lambda>s. \<bar>pctChangeOf s\<bar>) rest)))"
    and k: "\<forall>k. m' k =
              (if spec_typeCount rest k = 0 then ?m1 k
               else Some (Count ((case ?m1 k of Some (Count n) \<Rightarrow> n | _ \<Rightarrow> 0)
                                 + spec_typeCount rest k)))"
    by blast
  have sum: "foldl (fadd h) (fadd h a \<bar>p\<bar>) (map (\<lambda>s. \<bar>pctChangeOf s\<bar>) rest)
               = foldl (fadd h) a (map (\<lambda>s. \<bar>pctChangeOf s\<bar>) (s # rest))"
    using p by (simp add: pctChangeOf_def)
  have cnt: "\<forall>k. m' k =
               (if spec_typeCount (s # rest) k = 0 then m k
                else Some (Count ((case m k of Some (Count n) \<Rightarrow> n | _ \<Rightarrow> 0)
                                  + spec_typeCount (s # rest) k)))"
    using k tag Cons.prems(2)
    by (auto simp: spec_typeCount_def split: option.splits count.splits)
  from step r sum cnt show ?case by auto
qed

text \<open>
  What \<open>calculateStats\<close> returns for a non-empty dataset of typed segments: the
  length, for each type that occurs the number of its occurrences and nothing for
  any other type, and the mean of \<open>|pct_change|\<close>, as double arithmetic gives it,
  printed with two decimals and a percent sign. For the empty list the result is
  \<^verbatim>\<open>null\<close>; without an argument the dataset is the last loaded data.
\<close>

lemma calculateStats_typed:
  assumes "data \<noteq> []" and "\<forall>s\<in>set data. typedSegment s"
  shows "\<exists>st. calculateStats h (Some data) this = Inr (Some st)
            \<and> totalSegments st = length data
            \<and> (\<forall>tag. typeCounts st tag =
                  (if spec_typeCount data tag = 0 then None
                   else Some (Count (spec_typeCount data tag))))
            \<and> volatility st = toFixed2 h (Some (spec_meanAbsChange h data)) @ ''%''"
proof -
  have e: "\<forall>k. Map.empty k = None \<or> (\<exists>n. (Map.empty :: string \<rightharpoonup> count) k = Some (Count n))"
    by simp
  from statsLoop_typed [OF assms(2) e, of h 0] obtain m' where
    r: "statsLoop h data (Map.empty, Some 0)
          = Inr (m', Some (foldl (fadd h) 0 (map (\<lambda>s. \<bar>pctChangeOf s\<bar>) data)))"
    and k: "\<forall>k. m' k = (if spec_typeCount data k = 0 then None
                         else Some (Count (spec_typeCount data k)))"
    by auto
  let ?st = "\<lparr>totalSegments = length data, typeCounts = m',
              volatility = toFixed2 h (Some (spec_meanAbsChange h data)) @ ''%''\<rparr>"
  have "calculateStats h (Some data) this = Inr (Some ?st)"
    using assms(1) r by (simp add: calculateStats_def num2_def spec_meanAbsChange_def)
  with k show ?thesis by simp
qed

lemma calculateStats_no_data:
  "calculateStats h (Some []) this = Inr None
   \<and> calculateStats h None this = calculateStats h (lastLoadedData this) this
   \<and> calculateStats h None (this\<lparr>lastLoadedData := None\<rparr>) = Inr None"
proof -
  have "calculateStats h None this = calculateStats h (lastLoadedData this) this"
    by (cases "lastLoadedData this") (simp_all add: calculateStats_def)
  then show ?thesis by (simp add: calculateStats_def)
qed

text \<open>
  The example of the specification: percent changes 4 and -2 of an optimal and a
  negative segment give two segments, one of each type, and the volatility
  \<open>3.00%\<close>.
\<close>

lemma calculateStats_example:
  "\<exists>st. calculateStats exampleHost (Some statsExample) (DNAVisualizer []) = Inr (Some st)
      \<and> totalSegments st = 2
      \<and> typeCounts st ''optimal'' = Some (Count 1)
      \<and> typeCounts st ''negative'' = Some (Count 1)
      \<and> typeCounts st ''other'' = None
      \<and> volatility st = ''3.00%''"
proof -
  have ne: "statsExample \<noteq> []" by (simp add: statsExample_def)
  have ty: "\<forall>s\<in>set statsExample. typedSegment s"
    by (simp add: statsExample_def typedSegment_def objectPrototypeFunctions_def)
  have mean: "spec_meanAbsChange exampleHost statsExample = 3"
    by (simp add: spec_meanAbsChange_def statsExample_def pctChangeOf_def exampleHost_def)
  have c: "spec_typeCount statsExample ''optimal'' = 1"
    "spec_typeCount statsExample ''negative'' = 1"
    "spec_typeCount statsExample ''other'' = 0"
    by (simp_all add: spec_typeCount_def statsExample_def)
  have len: "length statsExample = 2" by (simp add: statsExample_def)
  have fx: "toFixed2 exampleHost (Some 3) = ''3.00''" by (simp add: toFixed2_def digit_def)
  from calculateStats_typed [OF ne ty, of exampleHost "DNAVisualizer []"]
  obtain st where
    "calculateStats exampleHost (Some statsExample) (DNAVisualizer []) = Inr (Some st)"
    and "totalSegments st = length statsExample"
    and "\<forall>tag. typeCounts st tag =
           (if spec_typeCount statsExample tag = 0 then None
            else Some (Count (spec_typeCount statsExample tag)))"
    and "volatility st
           = toFixed2 exampleHost (Some (spec_meanAbsChange exampleHost statsExample)) @ ''%''"
    by blast
  then show ?thesis using mean c len fx by auto
qed

section \<open>The orbit camera controller\<close>

subsection \<open>The conversions are inverse to each other\<close>




subsection \<open>The tick\<close>











end
